theory Spec2Isabelle
  imports Complex_Main
begin

section \<open>Basic types of point\_viz.h\<close>

text \<open>
  The C++ types \<open>float\<close>, \<open>double\<close> and \<open>GLfloat\<close> are modelled as real numbers: the
  development is about which value is stored where and which flag is set, not about
  rounding. A data member \<open>name_\<close> of class \<open>C\<close> is the record field \<open>C_name'\<close> (a name
  may not end in an underscore here); a member function \<open>C::f\<close> is the constant \<open>C_f\<close>.
\<close>

type_synonym GLfloat = real
type_synonym GLuint = nat

text \<open>\<open>mat4d\<close> is \<open>std::array<double, 16>\<close>, column-major; \<open>vec4f\<close> and \<open>vec3d\<close> are
  \<open>std::array\<close>s of four floats and three doubles.\<close>

type_synonym mat4d = "real list"
type_synonym vec4f = "real \<times> real \<times> real \<times> real"
type_synonym vec3d = "real \<times> real \<times> real"

definition identity4d :: mat4d where
  "identity4d = [1, 0, 0, 0, 0, 1, 0, 0, 0, 0, 1, 0, 0, 0, 0, 1]"

text \<open>\<open>v[i]\<close> on a \<open>vec4f\<close>; the source only ever uses the indices 0 to 3.\<close>

definition vec4f_at :: "vec4f \<Rightarrow> nat \<Rightarrow> real" where
  "vec4f_at v i =
     (case v of (a, b, c, d) \<Rightarrow>
        if i = 0 then a else if i = 1 then b else if i = 2 then c else d)"

record WindowCtx =
  lbutton_down :: bool
  mbutton_down :: bool
  mouse_x :: real
  mouse_y :: real
  viewport_width :: int
  viewport_height :: int

text \<open>
  What a call can end in besides returning. \<open>logic_error\<close> is the \<open>std::logic_error\<close> the
  renderer binding throws, with its message; \<open>InvalidArgument\<close> is the failure category
  of the specification for an input of the wrong size.
\<close>

datatype error = InvalidArgument | logic_error string

section \<open>The OpenGL calls issued by common.h and image.cpp\<close>

text \<open>
  The rendering backend is an external collaborator. A function of the source that talks
  to it is modelled by the list of OpenGL calls it issues, in order, with the arguments
  that vary between calls.
\<close>

datatype GLenum =
    GL_RED | GL_RGB | GL_RGBA | GL_RGB32F
  | GL_NEAREST | GL_LINEAR | GL_CLAMP_TO_EDGE | GL_REPEAT
  | GL_TEXTURE_MAX_LEVEL | GL_TEXTURE_BASE_LEVEL
  | GL_TEXTURE_MAG_FILTER | GL_TEXTURE_MIN_FILTER
  | GL_TEXTURE_WRAP_S | GL_TEXTURE_WRAP_T
  | GL_ARRAY_BUFFER | GL_ELEMENT_ARRAY_BUFFER
  | GL_STATIC_DRAW | GL_DYNAMIC_DRAW | GL_TRIANGLES

datatype GLparam = Level nat | Enum GLenum

datatype gl_call =
    glBindTexture GLuint
  | glTexParameteri GLenum GLparam
  | glTexImage2D GLenum nat nat GLenum "GLfloat list"
  | glUniform1i GLuint int
  | glActiveTexture nat
  | glEnableVertexAttribArray GLuint
  | glDisableVertexAttribArray GLuint
  | glBindBuffer GLenum GLuint
  | glBufferData GLenum "GLfloat list" GLenum
  | glBufferData_ubyte GLenum "nat list" GLenum
  | glVertexAttribPointer GLuint nat
  | glDrawElements GLenum nat
  | glGenBuffers nat "GLuint list"
  | glGenTextures nat "GLuint list"
  | glUseProgram GLuint
  | glDeleteProgram GLuint

text \<open>
  \<open>load_texture\<close> of common.h: binds the texture, restricts it to one level, selects
  nearest-neighbour filtering and clamping to the edge in both directions, and transfers
  \<open>width * height\<close> texels read from \<open>texture\<close>.
\<close>

definition load_texture ::
  "GLfloat list \<Rightarrow> nat \<Rightarrow> nat \<Rightarrow> GLuint \<Rightarrow> GLenum \<Rightarrow> GLenum \<Rightarrow> gl_call list" where
  "load_texture texture width height texture_id internal_format format =
     [glBindTexture texture_id,
      glTexParameteri GL_TEXTURE_MAX_LEVEL (Level 0),
      glTexParameteri GL_TEXTURE_BASE_LEVEL (Level 0),
      glTexParameteri GL_TEXTURE_MAG_FILTER (Enum GL_NEAREST),
      glTexParameteri GL_TEXTURE_MIN_FILTER (Enum GL_NEAREST),
      glTexParameteri GL_TEXTURE_WRAP_S (Enum GL_CLAMP_TO_EDGE),
      glTexParameteri GL_TEXTURE_WRAP_T (Enum GL_CLAMP_TO_EDGE),
      glTexImage2D internal_format width height format texture]"

text \<open>
  The texture transfers in a list of calls, each with the texture it goes to:
  \<open>glTexImage2D\<close> writes the texture bound to the active texture unit. \<open>unit\<close> is the
  active unit and \<open>bound\<close> the binding of every unit before the calls.
\<close>

fun tex_uploads ::
  "nat \<Rightarrow> (nat \<Rightarrow> GLuint) \<Rightarrow> gl_call list \<Rightarrow> (GLuint \<times> nat \<times> nat \<times> GLenum \<times> GLfloat list) list" where
  "tex_uploads unit bound [] = []"
| "tex_uploads unit bound (c # cs) =
     (case c of
        glActiveTexture u \<Rightarrow> tex_uploads u bound cs
      | glBindTexture t \<Rightarrow> tex_uploads unit (bound(unit := t)) cs
      | glTexImage2D internal_format width height format texture \<Rightarrow>
          (bound unit, width, height, format, texture) # tex_uploads unit bound cs
      | _ \<Rightarrow> tex_uploads unit bound cs)"

section \<open>Image and its renderer binding GLImage (point\_viz.h, image.cpp)\<close>

record Image =
  Image_position_changed' :: bool
  Image_image_changed' :: bool
  Image_mask_changed' :: bool
  Image_position' :: vec4f
  Image_image_width' :: nat
  Image_image_height' :: nat
  Image_image_data' :: "GLfloat list"
  Image_mask_width' :: nat
  Image_mask_height' :: nat
  Image_mask_data' :: "GLfloat list"

text \<open>
  The static members of \<open>GLImage\<close>, which image.cpp defines, and the members of one
  \<open>GLImage\<close> object that image.cpp reads and writes (the class itself is declared in
  image.h, which is not among the sources).
\<close>

record GLImage_static =
  GLImage_initialized :: bool
  GLImage_program_id :: GLuint
  GLImage_vertex_id :: GLuint
  GLImage_uv_id :: GLuint
  GLImage_image_id :: GLuint
  GLImage_mask_id :: GLuint

record GLImage =
  GLImage_x0 :: GLfloat
  GLImage_x1 :: GLfloat
  GLImage_y0 :: GLfloat
  GLImage_y1 :: GLfloat
  GLImage_vertexbuffers :: "GLuint \<times> GLuint"
  GLImage_image_index_id :: GLuint
  GLImage_image_texture_id :: GLuint
  GLImage_mask_texture_id :: GLuint

text \<open>
  The three guarded blocks at the head of \<open>GLImage::draw\<close>: each consumes one field group
  of the image if its flag is set, and clears the flag.
\<close>

definition draw_position :: "GLImage \<Rightarrow> Image \<Rightarrow> GLImage \<times> Image" where
  "draw_position g img =
     (if Image_position_changed' img
      then (g\<lparr>GLImage_x0 := vec4f_at (Image_position' img) 0,
              GLImage_x1 := vec4f_at (Image_position' img) 1,
              GLImage_y0 := vec4f_at (Image_position' img) 2,
              GLImage_y1 := vec4f_at (Image_position' img) 3\<rparr>,
            img\<lparr>Image_position_changed' := False\<rparr>)
      else (g, img))"

definition draw_image :: "GLImage \<Rightarrow> Image \<Rightarrow> gl_call list \<times> Image" where
  "draw_image g img =
     (if Image_image_changed' img
      then (load_texture (Image_image_data' img) (Image_image_width' img)
              (Image_image_height' img) (GLImage_image_texture_id g) GL_RED GL_RED,
            img\<lparr>Image_image_changed' := False\<rparr>)
      else ([], img))"

definition draw_mask :: "GLImage \<Rightarrow> Image \<Rightarrow> gl_call list \<times> Image" where
  "draw_mask g img =
     (if Image_mask_changed' img
      then (load_texture (Image_mask_data' img) (Image_mask_width' img)
              (Image_mask_height' img) (GLImage_mask_texture_id g) GL_RGBA GL_RGBA,
            img\<lparr>Image_mask_changed' := False\<rparr>)
      else ([], img))"

text \<open>The quad of \<open>GLImage::draw\<close>: four corners, two floats each.\<close>

definition draw_vertices :: "GLImage \<Rightarrow> real \<Rightarrow> GLfloat list" where
  "draw_vertices g aspect =
     (let x0_scaled = GLImage_x0 g / aspect;
          x1_scaled = GLImage_x1 g / aspect
      in [x0_scaled, GLImage_y0 g, x0_scaled, GLImage_y1 g,
          x1_scaled, GLImage_y1 g, x1_scaled, GLImage_y0 g])"

definition draw_texcoords :: "GLfloat list" where
  "draw_texcoords = [0, 0, 0, 1, 1, 1, 1, 0]"

text \<open>
  \<open>GLImage::draw(ctx, camera, img)\<close>. \<open>impl::window_aspect\<close> is declared in camera.h,
  which is not part of the sources at hand, and is a parameter. The result is the calls
  issued, the binding and the image after the call.
\<close>

definition GLImage_draw ::
  "(WindowCtx \<Rightarrow> real) \<Rightarrow> GLImage_static \<Rightarrow> WindowCtx \<Rightarrow> 'camera \<Rightarrow> GLImage \<Rightarrow> Image
     \<Rightarrow> gl_call list \<times> GLImage \<times> Image" where
  "GLImage_draw window_aspect st ctx camera g img =
     (let (g1, image1) = draw_position g img;
          (upload_image, image2) = draw_image g1 image1;
          (upload_mask, image3) = draw_mask g1 image2;
          aspect = window_aspect ctx
      in ([glUniform1i (GLImage_image_id st) 0, glUniform1i (GLImage_mask_id st) 1,
           glActiveTexture 0]
          @ upload_image
          @ [glBindTexture (GLImage_image_texture_id g1), glActiveTexture 1]
          @ upload_mask
          @ [glBindTexture (GLImage_mask_texture_id g1),
             glEnableVertexAttribArray (GLImage_vertex_id st),
             glBindBuffer GL_ARRAY_BUFFER (fst (GLImage_vertexbuffers g1)),
             glBufferData GL_ARRAY_BUFFER (draw_vertices g1 aspect) GL_DYNAMIC_DRAW,
             glVertexAttribPointer (GLImage_vertex_id st) 2,
             glEnableVertexAttribArray (GLImage_uv_id st),
             glBindBuffer GL_ARRAY_BUFFER (snd (GLImage_vertexbuffers g1)),
             glBufferData GL_ARRAY_BUFFER draw_texcoords GL_DYNAMIC_DRAW,
             glVertexAttribPointer (GLImage_uv_id st) 2,
             glBindBuffer GL_ELEMENT_ARRAY_BUFFER (GLImage_image_index_id g1),
             glDrawElements GL_TRIANGLES 6,
             glDisableVertexAttribArray (GLImage_vertex_id st),
             glDisableVertexAttribArray (GLImage_uv_id st)],
          g1, image3))"

text \<open>
  The static members as image.cpp defines them: \<open>initialized = false\<close>, and the five
  names without an initializer, which static storage sets to zero.
\<close>

definition GLImage_static_init :: GLImage_static where
  "GLImage_static_init =
     \<lparr>GLImage_initialized = False, GLImage_program_id = 0, GLImage_vertex_id = 0,
      GLImage_uv_id = 0, GLImage_image_id = 0, GLImage_mask_id = 0\<rparr>"

text \<open>
  \<open>GLImage::initialize()\<close>. What the GL answers is a parameter: \<open>program\<close> is the name
  \<open>load_shaders\<close> returns for the two image shaders, \<open>attrib\<close> and \<open>uniform\<close> are
  \<open>glGetAttribLocation\<close> and \<open>glGetUniformLocation\<close> on that program.
\<close>

definition GLImage_initialize ::
  "GLuint \<Rightarrow> (string \<Rightarrow> GLuint) \<Rightarrow> (string \<Rightarrow> GLuint) \<Rightarrow> GLImage_static \<Rightarrow> GLImage_static" where
  "GLImage_initialize program attrib uniform st =
     st\<lparr>GLImage_program_id := program,
        GLImage_vertex_id := attrib ''vertex'',
        GLImage_uv_id := attrib ''vertex_uv'',
        GLImage_image_id := uniform ''image'',
        GLImage_mask_id := uniform ''mask'',
        GLImage_initialized := True\<rparr>"

text \<open>
  The static entry points without a guard. Each returns the calls it issues; the result
  is a sum so that it can be compared with the constructor's, but no branch raises.
\<close>

definition GLImage_uninitialize :: "GLImage_static \<Rightarrow> error + gl_call list" where
  "GLImage_uninitialize st = Inr [glDeleteProgram (GLImage_program_id st)]"

definition GLImage_beginDraw :: "GLImage_static \<Rightarrow> error + gl_call list" where
  "GLImage_beginDraw st = Inr [glUseProgram (GLImage_program_id st)]"

definition GLImage_endDraw :: "GLImage_static \<Rightarrow> error + gl_call list" where
  "GLImage_endDraw st = Inr []"

text \<open>
  \<open>GLImage::GLImage()\<close>. The names the GL generates are parameters (\<open>vbs\<close> for
  \<open>glGenBuffers(2, ...)\<close>, \<open>idx\<close> for the index buffer, \<open>texs\<close> for \<open>glGenTextures\<close>);
  \<open>g0\<close> is the object before the constructor's body runs, whose members \<open>x0\<close> to \<open>y1\<close>
  the body does not assign (image.h, which declares them, is not at hand).
\<close>

definition GLImage_ctor ::
  "GLImage_static \<Rightarrow> GLuint \<times> GLuint \<Rightarrow> GLuint \<Rightarrow> GLuint \<times> GLuint \<Rightarrow> GLImage
     \<Rightarrow> error + (gl_call list \<times> GLImage)" where
  "GLImage_ctor st vbs idx texs g0 =
     (if \<not> GLImage_initialized st then Inl (logic_error ''GLCloud not initialized'')
      else
        let indices = [0, 1, 2, 0, 2, 3];
            image_texture_id = fst texs;
            mask_texture_id = snd texs;
            init = [0, 0, 0, 0]
        in Inr ([glGenBuffers 2 [fst vbs, snd vbs],
                 glGenBuffers 1 [idx],
                 glBindBuffer GL_ELEMENT_ARRAY_BUFFER idx,
                 glBufferData_ubyte GL_ELEMENT_ARRAY_BUFFER indices GL_STATIC_DRAW,
                 glGenTextures 2 [fst texs, snd texs]]
                @ load_texture init 1 1 image_texture_id GL_RED GL_RED
                @ load_texture init 1 1 mask_texture_id GL_RGBA GL_RGBA,
                g0\<lparr>GLImage_vertexbuffers := vbs,
                   GLImage_image_index_id := idx,
                   GLImage_image_texture_id := image_texture_id,
                   GLImage_mask_texture_id := mask_texture_id\<rparr>))"

text \<open>
  Modelled from the spec: the body of \<open>Image::set_position\<close> is in point\_viz.cpp, which
  is not among the sources; only the declaration is. Every setter copies what it is
  given into the staging buffer and sets the dirty flag of its field group (spec 4.1),
  and the placement is kept in the order \<open>{x_min, x_max, y_min, y_max}\<close> (spec 9), which
  is the order of the declaration's parameters. The comment above the declaration in
  point\_viz.h lists the coordinates as \<open>{x_min, x_max, y_max, y_min}\<close>; without the body,
  which of the two the code stores cannot be read off the sources.
\<close>

definition Image_set_position :: "real \<Rightarrow> real \<Rightarrow> real \<Rightarrow> real \<Rightarrow> Image \<Rightarrow> Image" where
  "Image_set_position x_min x_max y_min y_max img =
     img\<lparr>Image_position' := (x_min, x_max, y_min, y_max),
         Image_position_changed' := True\<rparr>"

text \<open>An image holding the values of the default member initializers of class \<open>Image\<close>.\<close>

definition Image_members_default :: Image where
  "Image_members_default =
     \<lparr>Image_position_changed' = False, Image_image_changed' = False,
      Image_mask_changed' = False, Image_position' = (0, 0, 0, 0),
      Image_image_width' = 0, Image_image_height' = 0, Image_image_data' = [],
      Image_mask_width' = 0, Image_mask_height' = 0, Image_mask_data' = []\<rparr>"

section \<open>Textures: what the GL keeps and how a shader samples it\<close>

text \<open>
  The part of the OpenGL semantics that \<open>load_texture\<close> and the point vertex shader rely
  on: a texture has a size, a format, its texels and four parameters; \<open>glTexImage2D\<close>
  and \<open>glTexParameteri\<close> act on the texture bound to the active unit.
\<close>

record texture =
  tex_width :: nat
  tex_height :: nat
  tex_internal_format :: GLenum
  tex_format :: GLenum
  tex_data :: "GLfloat list"
  tex_mag_filter :: GLenum
  tex_min_filter :: GLenum
  tex_wrap_s :: GLenum
  tex_wrap_t :: GLenum

definition components :: "GLenum \<Rightarrow> nat" where
  "components format =
     (if format = GL_RED then 1 else if format = GL_RGB then 3
      else if format = GL_RGBA then 4 else 0)"

definition tex_parameter :: "GLenum \<Rightarrow> GLparam \<Rightarrow> texture \<Rightarrow> texture" where
  "tex_parameter pname param tex =
     (case param of
        Level l \<Rightarrow> tex
      | Enum e \<Rightarrow>
          if pname = GL_TEXTURE_MAG_FILTER then tex\<lparr>tex_mag_filter := e\<rparr>
          else if pname = GL_TEXTURE_MIN_FILTER then tex\<lparr>tex_min_filter := e\<rparr>
          else if pname = GL_TEXTURE_WRAP_S then tex\<lparr>tex_wrap_s := e\<rparr>
          else if pname = GL_TEXTURE_WRAP_T then tex\<lparr>tex_wrap_t := e\<rparr>
          else tex)"

fun gl_textures ::
  "nat \<Rightarrow> (nat \<Rightarrow> GLuint) \<Rightarrow> (GLuint \<Rightarrow> texture) \<Rightarrow> gl_call list \<Rightarrow> GLuint \<Rightarrow> texture" where
  "gl_textures unit bound texs [] = texs"
| "gl_textures unit bound texs (c # cs) =
     (case c of
        glActiveTexture u \<Rightarrow> gl_textures u bound texs cs
      | glBindTexture t \<Rightarrow> gl_textures unit (bound(unit := t)) texs cs
      | glTexParameteri pname param \<Rightarrow>
          gl_textures unit bound
            (texs(bound unit := tex_parameter pname param (texs (bound unit)))) cs
      | glTexImage2D internal_format width height format texture \<Rightarrow>
          gl_textures unit bound
            (texs(bound unit := (texs (bound unit))
               \<lparr>tex_width := width, tex_height := height,
                tex_internal_format := internal_format, tex_format := format,
                tex_data := take (width * height * components format) texture\<rparr>)) cs
      | _ \<Rightarrow> gl_textures unit bound texs cs)"

text \<open>
  The texel in column \<open>i\<close> of row \<open>j\<close>, as the RGBA value a sampler returns: rows follow
  one another in the data, a component the format lacks reads 0, a lacking alpha 1.
\<close>

definition texel :: "texture \<Rightarrow> nat \<Rightarrow> nat \<Rightarrow> vec4f" where
  "texel tex i j =
     (let k = components (tex_format tex);
          base = (j * tex_width tex + i) * k;
          d = tex_data tex
      in (if 0 < k then d ! base else 0,
          if 1 < k then d ! (base + 1) else 0,
          if 2 < k then d ! (base + 2) else 0,
          if 3 < k then d ! (base + 3) else 1))"

definition wrap_index :: "GLenum \<Rightarrow> nat \<Rightarrow> int \<Rightarrow> nat" where
  "wrap_index mode n i =
     (if mode = GL_REPEAT then nat (i mod int n)
      else nat (max 0 (min (int n - 1) i)))"

definition vec4f_scale :: "real \<Rightarrow> vec4f \<Rightarrow> vec4f" where
  "vec4f_scale a v = (case v of (x, y, z, w) \<Rightarrow> (a * x, a * y, a * z, a * w))"

definition vec4f_add :: "vec4f \<Rightarrow> vec4f \<Rightarrow> vec4f" where
  "vec4f_add u v =
     (case u of (x, y, z, w) \<Rightarrow> case v of (x', y', z', w') \<Rightarrow>
        (x + x', y + y', z + z', w + w'))"

text \<open>
  GLSL \<open>texture(sampler, vec2(s, t))\<close> on a one-level texture. With nearest filtering the
  result is the one texel whose cell holds \<open>(s, t)\<close>; with linear filtering it is the
  weighted mean of the four texels around \<open>(s, t)\<close>. Only the floating-point internal
  format \<open>GL_RGB32F\<close> keeps the floats it is given; the normalised formats clamp and
  round them. A texture of another internal format, one whose data does not fill its
  size, and a mix of the two filters have no value in this model.
\<close>

definition texture_sample :: "texture \<Rightarrow> real \<Rightarrow> real \<Rightarrow> vec4f option" where
  "texture_sample tex s t =
     (let W = tex_width tex; H = tex_height tex;
          ix = wrap_index (tex_wrap_s tex) W;
          jx = wrap_index (tex_wrap_t tex) H
      in if W = 0 \<or> H = 0 \<or> tex_internal_format tex \<noteq> GL_RGB32F
            \<or> length (tex_data tex) \<noteq> W * H * components (tex_format tex)
         then None
         else if tex_mag_filter tex = GL_NEAREST \<and> tex_min_filter tex = GL_NEAREST
         then Some (texel tex (ix \<lfloor>s * real W\<rfloor>) (jx \<lfloor>t * real H\<rfloor>))
         else if tex_mag_filter tex = GL_LINEAR \<and> tex_min_filter tex = GL_LINEAR
         then
           let u = s * real W - 1 / 2; v = t * real H - 1 / 2;
               i0 = \<lfloor>u\<rfloor>; j0 = \<lfloor>v\<rfloor>;
               a = u - of_int i0; b = v - of_int j0
           in Some (vec4f_add
                (vec4f_add (vec4f_scale ((1 - a) * (1 - b)) (texel tex (ix i0) (jx j0)))
                           (vec4f_scale (a * (1 - b)) (texel tex (ix (i0 + 1)) (jx j0))))
                (vec4f_add (vec4f_scale ((1 - a) * b) (texel tex (ix i0) (jx (j0 + 1))))
                           (vec4f_scale (a * b) (texel tex (ix (i0 + 1)) (jx (j0 + 1))))))
         else None)"

text \<open>
  The pose lookup of \<open>point_vertex_shader_code\<close> (common.h): four samples of the
  sampler \<open>transformation\<close> at \<open>trans_index\<close>, in the middle of the four rows, become the
  four columns of \<open>car_pose\<close>. A GLSL \<open>mat4\<close> is given column by column, as \<open>mat4d\<close> is.
\<close>

definition point_vertex_shader_car_pose :: "texture \<Rightarrow> real \<Rightarrow> mat4d option" where
  "point_vertex_shader_car_pose transformation trans_index =
     (case texture_sample transformation trans_index 0.125 of None \<Rightarrow> None
      | Some r0 \<Rightarrow>
     (case texture_sample transformation trans_index 0.375 of None \<Rightarrow> None
      | Some r1 \<Rightarrow>
     (case texture_sample transformation trans_index 0.625 of None \<Rightarrow> None
      | Some r2 \<Rightarrow>
     (case texture_sample transformation trans_index 0.875 of None \<Rightarrow> None
      | Some t \<Rightarrow>
        Some [vec4f_at r0 0, vec4f_at r0 1, vec4f_at r0 2, 0,
              vec4f_at r1 0, vec4f_at r1 1, vec4f_at r1 2, 0,
              vec4f_at r2 0, vec4f_at r2 1, vec4f_at r2 2, 0,
              vec4f_at t 0, vec4f_at t 1, vec4f_at t 2, 1]))))"

section \<open>Cloud and its column poses (point\_viz.h)\<close>

record Cloud =
  Cloud_n' :: nat
  Cloud_w' :: nat
  Cloud_extrinsic' :: mat4d
  Cloud_range_changed' :: bool
  Cloud_key_changed' :: bool
  Cloud_mask_changed' :: bool
  Cloud_xyz_changed' :: bool
  Cloud_offset_changed' :: bool
  Cloud_transform_changed' :: bool
  Cloud_palette_changed' :: bool
  Cloud_pose_changed' :: bool
  Cloud_point_size_changed' :: bool
  Cloud_range_data' :: "GLfloat list"
  Cloud_key_data' :: "GLfloat list"
  Cloud_mask_data' :: "GLfloat list"
  Cloud_xyz_data' :: "GLfloat list"
  Cloud_off_data' :: "GLfloat list"
  Cloud_transform_data' :: "GLfloat list"
  Cloud_palette_data' :: "GLfloat list"
  Cloud_pose' :: mat4d
  Cloud_point_size' :: GLfloat

text \<open>
  The \<open>v\<close>th pose handed to \<open>set_column_poses\<close>, as the declaration documents its
  arguments: the rotation is \<open>r[v], r[w + v], ..., r[8 * w + v]\<close>, read row by row, the
  translation is \<open>t[v], t[w + v], t[2 * w + v]\<close>. The value is the homogeneous
  transformation of the two, column-major.
\<close>

definition column_pose :: "nat \<Rightarrow> GLfloat list \<Rightarrow> GLfloat list \<Rightarrow> nat \<Rightarrow> mat4d" where
  "column_pose w r t v =
     [r ! v, r ! (3 * w + v), r ! (6 * w + v), 0,
      r ! (w + v), r ! (4 * w + v), r ! (7 * w + v), 0,
      r ! (2 * w + v), r ! (5 * w + v), r ! (8 * w + v), 0,
      t ! v, t ! (w + v), t ! (2 * w + v), 1]"

text \<open>
  Modelled from the spec: the encoding of the column poses, which the body of
  \<open>Cloud::set_column_poses\<close> (point\_viz.cpp, not among the sources) writes. The encoded
  poses are looked up by one scalar per point (spec 4.3); the comment of the point vertex
  shader in common.h gives the layout: a \<open>w x 4\<close> texture of RGB texels, the texture's
  column \<open>v\<close> holding pose \<open>v\<close>, its four texels the three columns of the rotation and
  the translation. Entry \<open>k\<close> of the buffer is component \<open>k mod 3\<close> of texel \<open>k div 3\<close>,
  the texels of a row following one another.
\<close>

definition transform_entry :: "nat \<Rightarrow> GLfloat list \<Rightarrow> GLfloat list \<Rightarrow> nat \<Rightarrow> GLfloat" where
  "transform_entry w rotation translation k =
     (let rgb = k mod 3; v = (k div 3) mod w; u = (k div 3) div w
      in if u < 3 then rotation ! ((3 * rgb + u) * w + v)
         else translation ! (rgb * w + v))"

text \<open>
  Modelled from the spec: the body of \<open>Cloud::set_column_poses\<close> is in point\_viz.cpp,
  which is not among the sources. The setter takes \<open>rotation[9w]\<close> and
  \<open>translation[3w]\<close>, an input of another size is an InvalidArgument failure that leaves
  the cloud as it was, and otherwise it writes the staging buffer of its field group and
  sets the dirty flag of that group (spec 4.1, 4.3, 7).
\<close>

definition Cloud_set_column_poses ::
  "GLfloat list \<Rightarrow> GLfloat list \<Rightarrow> Cloud \<Rightarrow> error + Cloud" where
  "Cloud_set_column_poses rotation translation c =
     (if length rotation \<noteq> 9 * Cloud_w' c \<or> length translation \<noteq> 3 * Cloud_w' c
      then Inl InvalidArgument
      else Inr (c\<lparr>Cloud_transform_data' :=
                     map (transform_entry (Cloud_w' c) rotation translation)
                       [0 ..< 12 * Cloud_w' c],
                  Cloud_transform_changed' := True\<rparr>))"

text \<open>
  Modelled from the spec: the renderer binding of \<open>Cloud\<close> (\<open>GLCloud\<close>, cloud.cpp) is not
  among the sources. It hands the staged poses to the sampler \<open>transformation\<close> of the
  point vertex shader, which common.h documents as a \<open>w x 4\<close> texture; \<open>load_texture\<close> is
  the transfer function of common.h, and \<open>GL_RGB32F\<close> the floating-point internal
  format its documentation names, which stores the poses as they are (spec 4.3: the
  exact rotation and translation).
\<close>

definition GLCloud_load_transformation :: "Cloud \<Rightarrow> GLuint \<Rightarrow> gl_call list" where
  "GLCloud_load_transformation c transform_texture_id =
     load_texture (Cloud_transform_data' c) (Cloud_w' c) 4 transform_texture_id
       GL_RGB32F GL_RGB"

section \<open>Concrete values for the examples\<close>

text \<open>
  A structured cloud of four columns and two rows, with buffers of the sizes the
  specification gives (\<open>range[n]\<close>, \<open>key[n]\<close>, \<open>mask[4n]\<close>, \<open>xyz[3n]\<close>, offsets \<open>3n\<close>,
  poses \<open>12w\<close>), and four poses that differ in every entry: entry \<open>k\<close> of the rotation
  of column \<open>v\<close> is \<open>4 * k + v\<close>, entry \<open>k\<close> of its translation is \<open>100 + 4 * k + v\<close>.
\<close>

definition cloud4 :: Cloud where
  "cloud4 =
     \<lparr>Cloud_n' = 8, Cloud_w' = 4, Cloud_extrinsic' = identity4d,
      Cloud_range_changed' = False, Cloud_key_changed' = False,
      Cloud_mask_changed' = False, Cloud_xyz_changed' = False,
      Cloud_offset_changed' = False, Cloud_transform_changed' = False,
      Cloud_palette_changed' = False, Cloud_pose_changed' = False,
      Cloud_point_size_changed' = False,
      Cloud_range_data' = replicate 8 0, Cloud_key_data' = replicate 8 0,
      Cloud_mask_data' = replicate 32 0, Cloud_xyz_data' = replicate 24 0,
      Cloud_off_data' = replicate 24 0, Cloud_transform_data' = replicate 48 0,
      Cloud_palette_data' = [], Cloud_pose' = identity4d, Cloud_point_size' = 2\<rparr>"

definition rotation4 :: "GLfloat list" where
  "rotation4 = map real [0 ..< 36]"

definition translation4 :: "GLfloat list" where
  "translation4 = map real [100 ..< 112]"

text \<open>A texture object before anything is loaded, with OpenGL's initial parameters.\<close>

definition texture_initial :: texture where
  "texture_initial =
     \<lparr>tex_width = 0, tex_height = 0, tex_internal_format = GL_RGBA,
      tex_format = GL_RGBA, tex_data = [],
      tex_mag_filter = GL_LINEAR, tex_min_filter = GL_LINEAR,
      tex_wrap_s = GL_REPEAT, tex_wrap_t = GL_REPEAT\<rparr>"

text \<open>A binding whose position members are not yet set from an image.\<close>

definition GLImage_members_zero :: GLImage where
  "GLImage_members_zero =
     \<lparr>GLImage_x0 = 0, GLImage_x1 = 0, GLImage_y0 = 0, GLImage_y1 = 0,
      GLImage_vertexbuffers = (0, 0), GLImage_image_index_id = 0,
      GLImage_image_texture_id = 0, GLImage_mask_texture_id = 0\<rparr>"

section \<open>GLImage::draw consumes what is dirty, and nothing else\<close>

text \<open>
  Claim C4. For every image and every call of \<open>GLImage::draw\<close>: the three dirty flags
  are false when \<open>draw\<close> returns; the image after the call is the image before it with
  the three flags cleared, so no staged buffer, size or position is touched; the calls
  transfer the image data to the image texture if and only if \<open>image_changed_\<close> was set
  on entry, the mask data to the mask texture if and only if \<open>mask_changed_\<close> was set,
  and nothing else; and the position kept by the binding changes only if
  \<open>position_changed_\<close> was set, all other members of the binding staying as they were.
\<close>

theorem GLImage_draw_consumes_dirty_groups:
  "case GLImage_draw window_aspect st ctx camera g img of (calls, g', img') \<Rightarrow>
     \<not> Image_position_changed' img' \<and> \<not> Image_image_changed' img'
     \<and> \<not> Image_mask_changed' img'
     \<and> img' = img\<lparr>Image_position_changed' := False, Image_image_changed' := False,
                    Image_mask_changed' := False\<rparr>
     \<and> tex_uploads unit bound calls =
           (if Image_image_changed' img
            then [(GLImage_image_texture_id g, Image_image_width' img,
                   Image_image_height' img, GL_RED, Image_image_data' img)]
            else [])
           @ (if Image_mask_changed' img
              then [(GLImage_mask_texture_id g, Image_mask_width' img,
                     Image_mask_height' img, GL_RGBA, Image_mask_data' img)]
              else [])
     \<and> g' = (if Image_position_changed' img
              then g\<lparr>GLImage_x0 := vec4f_at (Image_position' img) 0,
                     GLImage_x1 := vec4f_at (Image_position' img) 1,
                     GLImage_y0 := vec4f_at (Image_position' img) 2,
                     GLImage_y1 := vec4f_at (Image_position' img) 3\<rparr>
              else g)"
  by (simp add: GLImage_draw_def draw_position_def draw_image_def draw_mask_def
      load_texture_def)

section \<open>The guard against a binding that was never initialized\<close>

text \<open>
  Claim C8, as amended. Constructing a \<open>GLImage\<close> while \<open>GLImage::initialize()\<close> has not
  run raises \<open>std::logic_error\<close> and builds nothing; once \<open>initialize()\<close> has run,
  whatever the state before, construction succeeds. \<open>draw\<close> is a member function and
  so needs a constructed \<open>GLImage\<close>. The guard sits in the constructor only: the static
  entry points \<open>beginDraw()\<close>, \<open>endDraw()\<close> and \<open>uninitialize()\<close> proceed in every
  state.
\<close>

theorem GLImage_guard_sits_in_the_constructor:
  "(\<not> GLImage_initialized st \<longrightarrow>
      GLImage_ctor st vbs idx texs g0 = Inl (logic_error ''GLCloud not initialized''))
   \<and> (GLImage_initialized st \<longrightarrow> (\<exists>calls g. GLImage_ctor st vbs idx texs g0 = Inr (calls, g)))
   \<and> GLImage_initialized (GLImage_initialize program attrib uniform st)
   \<and> (\<exists>calls g. GLImage_ctor (GLImage_initialize program attrib uniform st) vbs idx texs g0
                  = Inr (calls, g))
   \<and> GLImage_beginDraw st = Inr [glUseProgram (GLImage_program_id st)]
   \<and> GLImage_endDraw st = Inr []
   \<and> GLImage_uninitialize st = Inr [glDeleteProgram (GLImage_program_id st)]"
  by (simp add: GLImage_ctor_def GLImage_initialize_def GLImage_beginDraw_def
      GLImage_endDraw_def GLImage_uninitialize_def Let_def)

text \<open>
  The amended claim C8 at the state image.cpp starts in: construction raises there, and
  succeeds after \<open>initialize()\<close>.
\<close>

theorem GLImage_guard_witness:
  "\<not> GLImage_initialized GLImage_static_init
   \<and> GLImage_ctor GLImage_static_init (1, 2) 3 (4, 5) GLImage_members_zero
       = Inl (logic_error ''GLCloud not initialized'')
   \<and> GLImage_initialized (GLImage_initialize 9 (\<lambda>n. 0) (\<lambda>n. 0) GLImage_static_init)
   \<and> (\<exists>calls g. GLImage_ctor (GLImage_initialize 9 (\<lambda>n. 0) (\<lambda>n. 0) GLImage_static_init)
                    (1, 2) 3 (4, 5) GLImage_members_zero = Inr (calls, g))"
  using GLImage_guard_sits_in_the_constructor
    [of GLImage_static_init "(1, 2)" 3 "(4, 5)" GLImage_members_zero 9 "\<lambda>n. 0" "\<lambda>n. 0"]
  by (simp add: GLImage_static_init_def)

text \<open>
  Claim C8 as stated fails: with \<open>initialize()\<close> never called, \<open>GLImage::beginDraw()\<close>
  raises nothing and issues \<open>glUseProgram\<close> on the program name 0.
\<close>

theorem GLImage_beginDraw_unguarded:
  "\<not> GLImage_initialized GLImage_static_init
   \<and> GLImage_beginDraw GLImage_static_init = Inr [glUseProgram 0]"
  by (simp add: GLImage_static_init_def GLImage_beginDraw_def)

section \<open>The placement of an image on the screen\<close>

text \<open>
  Claim C9. \<open>Image::set_position(x_min, x_max, y_min, y_max)\<close> stores its four
  arguments in the order \<open>{x_min, x_max, y_min, y_max}\<close> at indices 0 to 3 of the position
  vector, and marks the position dirty. The draw path reads indices 0 and 1 as the two x
  extents, each multiplied by the reciprocal of the window's aspect ratio, and indices 2
  and 3 as the two y extents, unscaled, in that order: the quad it hands to the GL has
  the corners \<open>(p0/a, p2), (p0/a, p3), (p1/a, p3), (p1/a, p2)\<close> for every dirty position
  \<open>p\<close>, and is built from the position the binding already holds when the position is
  clean. Coordinates and the aspect ratio \<open>a\<close> are real numbers here; rounding, and the
  infinities a zero aspect ratio gives in floating point, are outside this statement.
\<close>

theorem Image_placement_order:
  "Image_position' (Image_set_position x_min x_max y_min y_max img)
     = (x_min, x_max, y_min, y_max)
   \<and> vec4f_at (Image_position' (Image_set_position x_min x_max y_min y_max img)) 0 = x_min
   \<and> vec4f_at (Image_position' (Image_set_position x_min x_max y_min y_max img)) 1 = x_max
   \<and> vec4f_at (Image_position' (Image_set_position x_min x_max y_min y_max img)) 2 = y_min
   \<and> vec4f_at (Image_position' (Image_set_position x_min x_max y_min y_max img)) 3 = y_max
   \<and> Image_position_changed' (Image_set_position x_min x_max y_min y_max img)
   \<and> (case GLImage_draw window_aspect st ctx camera g
              (Image_set_position x_min x_max y_min y_max img) of
         (calls, g', img') \<Rightarrow>
            GLImage_x0 g' = x_min \<and> GLImage_x1 g' = x_max
          \<and> GLImage_y0 g' = y_min \<and> GLImage_y1 g' = y_max
          \<and> draw_vertices g' (window_aspect ctx) =
               [x_min * (1 / window_aspect ctx), y_min,
                x_min * (1 / window_aspect ctx), y_max,
                x_max * (1 / window_aspect ctx), y_max,
                x_max * (1 / window_aspect ctx), y_min]
          \<and> glBufferData GL_ARRAY_BUFFER (draw_vertices g' (window_aspect ctx))
               GL_DYNAMIC_DRAW \<in> set calls)
   \<and> (case GLImage_draw window_aspect st ctx camera g img of
         (calls, g', img') \<Rightarrow>
            draw_vertices g' (window_aspect ctx) =
              (if Image_position_changed' img
               then [vec4f_at (Image_position' img) 0 * (1 / window_aspect ctx),
                     vec4f_at (Image_position' img) 2,
                     vec4f_at (Image_position' img) 0 * (1 / window_aspect ctx),
                     vec4f_at (Image_position' img) 3,
                     vec4f_at (Image_position' img) 1 * (1 / window_aspect ctx),
                     vec4f_at (Image_position' img) 3,
                     vec4f_at (Image_position' img) 1 * (1 / window_aspect ctx),
                     vec4f_at (Image_position' img) 2]
               else [GLImage_x0 g * (1 / window_aspect ctx), GLImage_y0 g,
                     GLImage_x0 g * (1 / window_aspect ctx), GLImage_y1 g,
                     GLImage_x1 g * (1 / window_aspect ctx), GLImage_y1 g,
                     GLImage_x1 g * (1 / window_aspect ctx), GLImage_y0 g])
          \<and> glBufferData GL_ARRAY_BUFFER (draw_vertices g' (window_aspect ctx))
               GL_DYNAMIC_DRAW \<in> set calls)"
  by (simp add: GLImage_draw_def draw_position_def draw_image_def draw_mask_def
      Image_set_position_def vec4f_at_def draw_vertices_def Let_def)

text \<open>
  Claim C9 at a window twice as wide as high: the image placed by
  \<open>set_position(-1, 1, -1/2, 1/2)\<close> keeps these four numbers in this order and is drawn
  between x = -1/2 and x = 1/2, its first two corners at y = -1/2 and y = 1/2.
\<close>

theorem Image_placement_order_witness:
  "Image_position' (Image_set_position (- 1) 1 (- 1 / 2) (1 / 2) Image_members_default)
     = (- 1, 1, - 1 / 2, 1 / 2)
   \<and> (case GLImage_draw (\<lambda>ctx. 2) GLImage_static_init
              \<lparr>lbutton_down = False, mbutton_down = False, mouse_x = 0, mouse_y = 0,
               viewport_width = 800, viewport_height = 400\<rparr> ()
              GLImage_members_zero
              (Image_set_position (- 1) 1 (- 1 / 2) (1 / 2) Image_members_default) of
         (calls, g', img') \<Rightarrow>
            draw_vertices g' 2 = [- 1 / 2, - 1 / 2, - 1 / 2, 1 / 2, 1 / 2, 1 / 2, 1 / 2, - 1 / 2]
          \<and> glBufferData GL_ARRAY_BUFFER (draw_vertices g' 2) GL_DYNAMIC_DRAW \<in> set calls)"
  using Image_placement_order
    [where x_min = "- 1" and x_max = 1 and y_min = "- 1 / 2" and y_max = "1 / 2"
       and img = Image_members_default and window_aspect = "\<lambda>ctx. 2"
       and st = GLImage_static_init
       and ctx = "\<lparr>lbutton_down = False, mbutton_down = False, mouse_x = 0, mouse_y = 0,
          viewport_width = 800, viewport_height = 400\<rparr>"
       and camera = "()" and g = GLImage_members_zero]
  by (auto split: prod.splits)

section \<open>Column poses survive the way through the texture\<close>

text \<open>What \<open>load_texture\<close> leaves in the texture it is given, whatever was there.\<close>

lemma gl_textures_load_texture:
  "gl_textures unit bound texs (load_texture d w h tid ifmt fmt) tid =
     (texs tid)\<lparr>tex_mag_filter := GL_NEAREST, tex_min_filter := GL_NEAREST,
        tex_wrap_s := GL_CLAMP_TO_EDGE, tex_wrap_t := GL_CLAMP_TO_EDGE,
        tex_width := w, tex_height := h, tex_internal_format := ifmt, tex_format := fmt,
        tex_data := take (w * h * components fmt) d\<rparr>"
  by (simp add: load_texture_def tex_parameter_def)

lemma texel_index:
  fixes k c :: nat
  assumes "c < 3"
  shows "(k * 3 + c) div 3 = k" "(k * 3 + c) mod 3 = c"
  using assms by simp_all

lemma column_index:
  fixes u v w :: nat
  assumes "v < w"
  shows "(u * w + v) mod w = v" "(u * w + v) div w = u"
  using assms by simp_all

lemma transform_entry_at:
  assumes "v < w" "c < 3"
  shows "transform_entry w r t ((u * w + v) * 3 + c) =
           (if u < 3 then r ! ((3 * c + u) * w + v) else t ! (c * w + v))"
  unfolding transform_entry_def texel_index [OF assms(2)] column_index [OF assms(1)]
  by simp

lemma floor_cell:
  assumes "0 < w" "real v / real w \<le> s" "s < real (v + 1) / real w"
  shows "\<lfloor>s * real w\<rfloor> = int v"
proof -
  have "real v \<le> s * real w" using assms by (simp add: pos_divide_le_eq)
  moreover have "s * real w < real v + 1" using assms by (simp add: pos_less_divide_eq)
  ultimately show ?thesis by linarith
qed

lemma transform_texel:
  assumes "v < w" "u < 4"
  shows "texel \<lparr>tex_width = w, tex_height = 4, tex_internal_format = GL_RGB32F,
            tex_format = GL_RGB, tex_data = map (transform_entry w r t) [0 ..< 12 * w],
            tex_mag_filter = mg, tex_min_filter = mn, tex_wrap_s = ws, tex_wrap_t = wt\<rparr> v u =
         (if u < 3 then (r ! (u * w + v), r ! ((3 + u) * w + v), r ! ((6 + u) * w + v), 1)
          else (t ! v, t ! (w + v), t ! (2 * w + v), 1))"
proof -
  define k where "k = u * w + v"
  define d where "d = map (transform_entry w r t) [0 ..< 12 * w]"
  have a: "(u + 1) * w \<le> 4 * w" using assms(2) by (intro mult_le_mono1) simp
  have "k < (u + 1) * w" using assms(1) by (simp add: k_def)
  then have kb: "k < 4 * w" using a by (rule less_le_trans)
  have nth: "d ! (k * 3 + c) = transform_entry w r t (k * 3 + c)" if "c < 3" for c
    using kb that by (simp add: d_def)
  have e: "transform_entry w r t (k * 3 + c) =
             (if u < 3 then r ! ((3 * c + u) * w + v) else t ! (c * w + v))" if "c < 3" for c
    using transform_entry_at [OF assms(1) that, of r t u] by (simp add: k_def)
  have "texel \<lparr>tex_width = w, tex_height = 4, tex_internal_format = GL_RGB32F,
            tex_format = GL_RGB, tex_data = d,
            tex_mag_filter = mg, tex_min_filter = mn, tex_wrap_s = ws, tex_wrap_t = wt\<rparr> v u =
        (d ! (k * 3 + 0), d ! (k * 3 + 1), d ! (k * 3 + 2), 1)"
    by (simp add: texel_def components_def k_def Let_def)
  also have "\<dots> = (if u < 3 then (r ! (u * w + v), r ! ((3 + u) * w + v), r ! ((6 + u) * w + v), 1)
          else (t ! v, t ! (w + v), t ! (2 * w + v), 1))"
    using nth [of 0] nth [of 1] nth [of 2] e [of 0] e [of 1] e [of 2] by simp
  finally show ?thesis by (simp add: d_def)
qed

lemma nearest_row:
  "wrap_index GL_CLAMP_TO_EDGE 4 \<lfloor>0.125 * real (4::nat)\<rfloor> = 0"
  "wrap_index GL_CLAMP_TO_EDGE 4 \<lfloor>0.375 * real (4::nat)\<rfloor> = 1"
  "wrap_index GL_CLAMP_TO_EDGE 4 \<lfloor>0.625 * real (4::nat)\<rfloor> = 2"
  "wrap_index GL_CLAMP_TO_EDGE 4 \<lfloor>0.875 * real (4::nat)\<rfloor> = 3"
  by (simp_all add: wrap_index_def)

lemma nearest_column:
  assumes "v < w" "real v / real w \<le> s" "s < real (v + 1) / real w"
  shows "wrap_index GL_CLAMP_TO_EDGE w \<lfloor>s * real w\<rfloor> = v"
proof -
  have "\<lfloor>s * real w\<rfloor> = int v" using assms by (intro floor_cell) auto
  then show ?thesis using assms(1) by (simp add: wrap_index_def)
qed

lemma sample_transformation:
  assumes "v < w" "u < 4" "real v / real w \<le> s" "s < real (v + 1) / real w"
    and "wrap_index GL_CLAMP_TO_EDGE 4 \<lfloor>y * real (4::nat)\<rfloor> = u"
  shows "texture_sample
           (gl_textures unit bound texs
              (load_texture (map (transform_entry w r t) [0 ..< 12 * w]) w 4 tid GL_RGB32F GL_RGB)
              tid) s y =
         Some (if u < 3 then (r ! (u * w + v), r ! ((3 + u) * w + v), r ! ((6 + u) * w + v), 1)
               else (t ! v, t ! (w + v), t ! (2 * w + v), 1))"
proof -
  have w: "0 < w" using assms(1) by simp
  have tex: "gl_textures unit bound texs
              (load_texture (map (transform_entry w r t) [0 ..< 12 * w]) w 4 tid GL_RGB32F GL_RGB)
              tid =
             \<lparr>tex_width = w, tex_height = 4, tex_internal_format = GL_RGB32F,
              tex_format = GL_RGB, tex_data = map (transform_entry w r t) [0 ..< 12 * w],
              tex_mag_filter = GL_NEAREST, tex_min_filter = GL_NEAREST,
              tex_wrap_s = GL_CLAMP_TO_EDGE, tex_wrap_t = GL_CLAMP_TO_EDGE\<rparr>"
    by (simp add: gl_textures_load_texture components_def)
  show ?thesis
    unfolding tex texture_sample_def
    using w assms(5) nearest_column [OF assms(1,3,4)] transform_texel [OF assms(1,2)]
    by (simp add: components_def Let_def)
qed

text \<open>
  Claim C2. For every cloud with \<open>w\<close> column poses, \<open>set_column_poses\<close> with a rotation
  of size \<open>9w\<close> and a translation of size \<open>3w\<close> succeeds and marks the poses dirty, and
  once the staged poses are loaded into the shader's texture, the pose the point vertex
  shader looks up at \<open>trans_index = v / w\<close> is exactly the rotation and translation
  supplied for column \<open>v\<close>, for every \<open>v < w\<close>. The same pose is returned at every sample
  position from \<open>v / w\<close> up to, and not including, \<open>(v + 1) / w\<close>: the lookup takes one
  texel and never blends two columns. Sample positions are real numbers here; the
  rounding of a float \<open>trans_index\<close> is outside this statement.
\<close>

theorem column_pose_round_trip:
  assumes "length rotation = 9 * Cloud_w' c" and "length translation = 3 * Cloud_w' c"
    and "v < Cloud_w' c"
  shows "\<exists>c'. Cloud_set_column_poses rotation translation c = Inr c'
           \<and> Cloud_transform_changed' c'
           \<and> point_vertex_shader_car_pose
                (gl_textures unit bound texs (GLCloud_load_transformation c' tid) tid)
                (real v / real (Cloud_w' c))
              = Some (column_pose (Cloud_w' c) rotation translation v)
           \<and> (\<forall>s. real v / real (Cloud_w' c) \<le> s \<and> s < real (v + 1) / real (Cloud_w' c)
                \<longrightarrow> point_vertex_shader_car_pose
                      (gl_textures unit bound texs (GLCloud_load_transformation c' tid) tid) s
                    = Some (column_pose (Cloud_w' c) rotation translation v))"
proof -
  define w where "w = Cloud_w' c"
  define c' where "c' = c\<lparr>Cloud_transform_data' :=
                     map (transform_entry w rotation translation) [0 ..< 12 * w],
                  Cloud_transform_changed' := True\<rparr>"
  have set: "Cloud_set_column_poses rotation translation c = Inr c'"
    using assms(1,2) by (simp add: Cloud_set_column_poses_def c'_def w_def)
  have v: "v < w" using assms(3) by (simp add: w_def)
  have pose: "point_vertex_shader_car_pose
                (gl_textures unit bound texs (GLCloud_load_transformation c' tid) tid) s
              = Some (column_pose w rotation translation v)"
    if "real v / real w \<le> s" "s < real (v + 1) / real w" for s
    unfolding point_vertex_shader_car_pose_def GLCloud_load_transformation_def
    using sample_transformation [OF v _ that nearest_row(1), where r = rotation and t = translation]
      sample_transformation [OF v _ that nearest_row(2), where r = rotation and t = translation]
      sample_transformation [OF v _ that nearest_row(3), where r = rotation and t = translation]
      sample_transformation [OF v _ that nearest_row(4), where r = rotation and t = translation]
    by (simp add: c'_def w_def [symmetric] vec4f_at_def column_pose_def add.commute)
  have here: "real v / real w \<le> real v / real w" "real v / real w < real (v + 1) / real w"
    using v by (simp_all add: divide_strict_right_mono)
  show ?thesis
    using set pose [OF here] pose by (auto simp: c'_def w_def)
qed

text \<open>
  Claim C2 for \<open>w = 4\<close> and four poses that differ in every entry: sampling at 0/4, 1/4,
  2/4 and 3/4 returns the pose of column 0, 1, 2 and 3.
\<close>

theorem column_pose_round_trip_witness:
  "length rotation4 = 9 * Cloud_w' cloud4 \<and> length translation4 = 3 * Cloud_w' cloud4
   \<and> (\<exists>c'. Cloud_set_column_poses rotation4 translation4 cloud4 = Inr c'
         \<and> point_vertex_shader_car_pose
              (gl_textures 0 (\<lambda>u. 0) (\<lambda>t. texture_initial)
                 (GLCloud_load_transformation c' 7) 7) (0 / 4)
            = Some [0, 12, 24, 0, 4, 16, 28, 0, 8, 20, 32, 0, 100, 104, 108, 1]
         \<and> point_vertex_shader_car_pose
              (gl_textures 0 (\<lambda>u. 0) (\<lambda>t. texture_initial)
                 (GLCloud_load_transformation c' 7) 7) (1 / 4)
            = Some [1, 13, 25, 0, 5, 17, 29, 0, 9, 21, 33, 0, 101, 105, 109, 1]
         \<and> point_vertex_shader_car_pose
              (gl_textures 0 (\<lambda>u. 0) (\<lambda>t. texture_initial)
                 (GLCloud_load_transformation c' 7) 7) (2 / 4)
            = Some [2, 14, 26, 0, 6, 18, 30, 0, 10, 22, 34, 0, 102, 106, 110, 1]
         \<and> point_vertex_shader_car_pose
              (gl_textures 0 (\<lambda>u. 0) (\<lambda>t. texture_initial)
                 (GLCloud_load_transformation c' 7) 7) (3 / 4)
            = Some [3, 15, 27, 0, 7, 19, 31, 0, 11, 23, 35, 0, 103, 107, 111, 1])"
proof -
  have l: "length rotation4 = 9 * Cloud_w' cloud4" "length translation4 = 3 * Cloud_w' cloud4"
    by (simp_all add: rotation4_def translation4_def cloud4_def)
  have w: "Cloud_w' cloud4 = 4" by (simp add: cloud4_def)
  have p: "column_pose 4 rotation4 translation4 0 =
             [0, 12, 24, 0, 4, 16, 28, 0, 8, 20, 32, 0, 100, 104, 108, 1]"
    "column_pose 4 rotation4 translation4 1 =
             [1, 13, 25, 0, 5, 17, 29, 0, 9, 21, 33, 0, 101, 105, 109, 1]"
    "column_pose 4 rotation4 translation4 2 =
             [2, 14, 26, 0, 6, 18, 30, 0, 10, 22, 34, 0, 102, 106, 110, 1]"
    "column_pose 4 rotation4 translation4 3 =
             [3, 15, 27, 0, 7, 19, 31, 0, 11, 23, 35, 0, 103, 107, 111, 1]"
    by (simp_all add: column_pose_def rotation4_def translation4_def)
  define c' where "c' = cloud4\<lparr>Cloud_transform_data' :=
       map (transform_entry 4 rotation4 translation4) [0 ..< 12 * 4],
     Cloud_transform_changed' := True\<rparr>"
  have set: "Cloud_set_column_poses rotation4 translation4 cloud4 = Inr c'"
    using l by (simp add: Cloud_set_column_poses_def c'_def w)
  have r: "point_vertex_shader_car_pose
              (gl_textures 0 (\<lambda>u. 0) (\<lambda>t. texture_initial)
                 (GLCloud_load_transformation c' 7) 7) (real v / 4)
            = Some (column_pose 4 rotation4 translation4 v)" if "v < 4" for v
    using column_pose_round_trip [OF l, of v 0 "\<lambda>u. 0" "\<lambda>t. texture_initial" 7] that set
    by (auto simp: w)
  show ?thesis
    using l set r [of 0] r [of 1] r [of 2] r [of 3] p(2) [unfolded One_nat_def]
    by (simp add: p)
qed

text \<open>
  Nearest filtering is what keeps the columns apart. On the border between two texels, a
  linearly filtered texture returns their mean, a nearest-filtered one the texel to the
  right.
\<close>

lemma linear_filter_blends:
  "texture_sample \<lparr>tex_width = 2, tex_height = 1, tex_internal_format = GL_RGB32F,
       tex_format = GL_RGB, tex_data = [0, 0, 0, 10, 10, 10],
       tex_mag_filter = GL_LINEAR, tex_min_filter = GL_LINEAR,
       tex_wrap_s = GL_CLAMP_TO_EDGE, tex_wrap_t = GL_CLAMP_TO_EDGE\<rparr> (1 / 2) (1 / 2)
     = Some (5, 5, 5, 1)"
  "texture_sample \<lparr>tex_width = 2, tex_height = 1, tex_internal_format = GL_RGB32F,
       tex_format = GL_RGB, tex_data = [0, 0, 0, 10, 10, 10],
       tex_mag_filter = GL_NEAREST, tex_min_filter = GL_NEAREST,
       tex_wrap_s = GL_CLAMP_TO_EDGE, tex_wrap_t = GL_CLAMP_TO_EDGE\<rparr> (1 / 2) (1 / 2)
     = Some (10, 10, 10, 1)"
  by (simp_all add: texture_sample_def texel_def components_def wrap_index_def
      vec4f_add_def vec4f_scale_def Let_def)

end
